theory Spec2Isabelle
  imports Main
begin

section \<open>Data model of the timed-debate page\<close>

text \<open>
  The page \<^verbatim>\<open>src/app/timed-debate/page.tsx\<close> is one React component. Its state
  variables become the fields of one record, its handlers become functions on that record.
  The round cursor, which only ever holds list positions, is \<open>nat\<close>. Optional fields of
  the source types are \<open>option\<close>s, and \<open>None\<close> in a message's content stands for
  \<^verbatim>\<open>undefined\<close>.
\<close>

subsection \<open>Numbers\<close>

text \<open>
  The times and durations of the page are JavaScript numbers, that is IEEE 754 doubles.
  Every one of them comes from \<^verbatim>\<open>parseInt\<close>, from an integer literal, or from
  \<^verbatim>\<open>+\<close>, \<^verbatim>\<open>-\<close>, \<^verbatim>\<open>*\<close>, \<^verbatim>\<open>%\<close> and \<^verbatim>\<open>Math.floor\<close> applied to such values, so it
  is \<^verbatim>\<open>NaN\<close>, an infinity, or a double whose value is an integer. The two zeros are
  not told apart: the page never divides by one or prints its sign.
\<close>

datatype number = NaN | PosInf | NegInf | Finite int

text \<open>The number of binary digits of a positive integer.\<close>

function bit_length :: "int \<Rightarrow> nat" where
  "bit_length n = (if n \<le> 0 then 0 else Suc (bit_length (n div 2)))"
  by pat_completeness auto
termination
  by (relation "measure nat") auto

declare bit_length.simps [simp del]

text \<open>The quotient \<open>p / q\<close> of two positive integers, rounded to the nearest integer, ties to even.\<close>

definition round_half_even :: "int \<Rightarrow> int \<Rightarrow> int" where
  "round_half_even p q =
     (let f = p div q; r = p mod q
      in if 2 * r < q then f else if q < 2 * r then f + 1 else if even f then f else f + 1)"

text \<open>
  The double nearest to an integer. Up to 53 binary digits the integer is a double.
  Beyond, the doubles of its size are the multiples of \<open>2 ^ (b - 53)\<close>; the nearest one is
  taken, ties to the even multiple, and a result of \<open>2 ^ 1024\<close> or more is an infinity.
\<close>

definition to_double :: "int \<Rightarrow> number" where
  "to_double x =
     (let b = bit_length \<bar>x\<bar> in
      if b \<le> 53 then Finite x
      else
        let ulp = 2 ^ (b - 53);
            m = round_half_even \<bar>x\<bar> ulp * ulp
        in if 2 ^ 1024 \<le> m then (if x < 0 then NegInf else PosInf)
           else Finite (sgn x * m))"

fun js_neg :: "number \<Rightarrow> number" where
  "js_neg NaN = NaN"
| "js_neg PosInf = NegInf"
| "js_neg NegInf = PosInf"
| "js_neg (Finite a) = Finite (- a)"

text \<open>\<^verbatim>\<open>x + y\<close>: the exact sum of two integers, rounded; opposite infinities give \<^verbatim>\<open>NaN\<close>.\<close>

fun js_add :: "number \<Rightarrow> number \<Rightarrow> number" where
  "js_add NaN y = NaN"
| "js_add x NaN = NaN"
| "js_add (Finite a) (Finite b) = to_double (a + b)"
| "js_add PosInf NegInf = NaN"
| "js_add NegInf PosInf = NaN"
| "js_add PosInf y = PosInf"
| "js_add NegInf y = NegInf"
| "js_add (Finite a) y = y"

definition js_sub :: "number \<Rightarrow> number \<Rightarrow> number" where
  "js_sub x y = js_add x (js_neg y)"

fun sign_of :: "number \<Rightarrow> int" where
  "sign_of NaN = 0"
| "sign_of PosInf = 1"
| "sign_of NegInf = - 1"
| "sign_of (Finite a) = sgn a"

text \<open>
  \<^verbatim>\<open>x * y\<close>: the exact product of two integers, rounded; an infinity times zero gives
  \<^verbatim>\<open>NaN\<close>, and times anything else the infinity of the product's sign.
\<close>

fun js_mul :: "number \<Rightarrow> number \<Rightarrow> number" where
  "js_mul NaN y = NaN"
| "js_mul x NaN = NaN"
| "js_mul (Finite a) (Finite b) = to_double (a * b)"
| "js_mul x y =
     (if sign_of x * sign_of y = 0 then NaN
      else if sign_of x * sign_of y < 0 then NegInf else PosInf)"

text \<open>\<^verbatim>\<open>x < y\<close>, false whenever a side is \<^verbatim>\<open>NaN\<close>; \<^verbatim>\<open>x > y\<close> is \<^verbatim>\<open>y < x\<close>.\<close>

fun js_less :: "number \<Rightarrow> number \<Rightarrow> bool" where
  "js_less NaN y = False"
| "js_less x NaN = False"
| "js_less (Finite a) (Finite b) = (a < b)"
| "js_less x PosInf = (x \<noteq> PosInf)"
| "js_less NegInf y = (y \<noteq> NegInf)"
| "js_less x y = False"

text \<open>
  \<^verbatim>\<open>x % 60\<close>: the remainder is exact and takes the sign of the dividend; an infinity
  has none.
\<close>

fun js_rem_60 :: "number \<Rightarrow> number" where
  "js_rem_60 (Finite a) = Finite (sgn a * (\<bar>a\<bar> mod 60))"
| "js_rem_60 x = NaN"

text \<open>
  \<^verbatim>\<open>Math.floor(x / 60)\<close>. The quotient of a non-zero integer \<open>a\<close> by 60 lies between
  \<open>2 ^ e\<close> and \<open>2 ^ (e + 1)\<close> for the \<open>e\<close> computed below, where the doubles are the
  multiples of \<open>2 ^ (e - 52)\<close>. The division gives the nearest of them, ties to even, and
  \<^verbatim>\<open>Math.floor\<close> the greatest integer below it.
\<close>

fun js_floor_div_60 :: "number \<Rightarrow> number" where
  "js_floor_div_60 (Finite a) =
     (if a = 0 then Finite 0
      else
        let b = bit_length \<bar>a\<bar>;
            e = (if 60 * 2 ^ b \<le> \<bar>a\<bar> * 64 then int b - 6 else int b - 7)
        in if e \<le> 52 then
             let scale = 2 ^ nat (52 - e);
                 n = round_half_even (\<bar>a\<bar> * scale) 60
             in Finite ((sgn a * n) div scale)
           else
             let ulp = 2 ^ nat (e - 52);
                 n = round_half_even \<bar>a\<bar> (60 * ulp)
             in Finite (sgn a * n * ulp))"
| "js_floor_div_60 x = x"

subsection \<open>Messages, settings, rounds and the state\<close>

datatype message_type = User | Ai

record message =
  mtype :: message_type
  content :: "string option"
  mstance :: "string option"
  isError :: "bool option"

record timer_settings =
  minutes :: number
  seconds :: number
  active :: bool

record round_structure =
  name :: string
  duration :: number

text \<open>The four audio elements, named after their refs.\<close>

datatype cue = ThirtySecond | FifteenSecond | FiveSecond | TimeUp

text \<open>The JSON body of one POST to \<^verbatim>\<open>/api/debate\<close>.\<close>

record request =
  req_userInput :: string
  req_stance :: string

text \<open>
  The component state. The last two fields are not React state: they log what the page has
  done to the outside, in order (each \<^verbatim>\<open>play()\<close> and each \<^verbatim>\<open>fetch\<close>).
\<close>

record state =
  userInput :: string
  loading :: bool
  stance :: string
  conversations :: "message list"
  showTimerSettings :: bool
  timerSettings :: timer_settings
  timeRemaining :: number
  soundEnabled :: bool
  currentRound :: nat
  rounds :: "round_structure list"
  played :: "cue list"
  requests :: "request list"

definition initial_state :: state where
  "initial_state =
     \<lparr>userInput = '''', loading = False, stance = ''pro'', conversations = [],
      showTimerSettings = False,
      timerSettings = \<lparr>minutes = Finite 2, seconds = Finite 0, active = False\<rparr>,
      timeRemaining = Finite 120, soundEnabled = True, currentRound = 0,
      rounds = [\<lparr>name = ''Opening Statement'', duration = Finite 120\<rparr>,
                \<lparr>name = ''Rebuttal'', duration = Finite 180\<rparr>,
                \<lparr>name = ''Closing Statement'', duration = Finite 60\<rparr>],
      played = [], requests = []\<rparr>"

section \<open>JavaScript built-ins used by the page\<close>

text \<open>
  Strings are lists of 8-bit characters. White space is what \<^verbatim>\<open>trim\<close> and
  \<^verbatim>\<open>parseInt\<close> strip, restricted to the code points below 256: tab, line feed,
  vertical tab, form feed, carriage return, space and no-break space.
\<close>

definition is_whitespace :: "char \<Rightarrow> bool" where
  "is_whitespace c = (of_char c \<in> {9, 10, 11, 12, 13, 32, 160 :: nat})"

definition trim :: "string \<Rightarrow> string" where
  "trim str = rev (dropWhile is_whitespace (rev (dropWhile is_whitespace str)))"

definition digit_value :: "char \<Rightarrow> nat option" where
  "digit_value c =
     (let n = of_char c :: nat in
      if 48 \<le> n \<and> n \<le> 57 then Some (n - 48)
      else if 97 \<le> n \<and> n \<le> 102 then Some (n - 87)
      else if 65 \<le> n \<and> n \<le> 70 then Some (n - 55)
      else None)"

definition is_digit :: "int \<Rightarrow> char \<Rightarrow> bool" where
  "is_digit radix c = (case digit_value c of Some d \<Rightarrow> int d < radix | None \<Rightarrow> False)"

definition digits_value :: "int \<Rightarrow> string \<Rightarrow> int" where
  "digits_value radix ds =
     foldl (\<lambda>acc c. case digit_value c of Some d \<Rightarrow> acc * radix + int d | None \<Rightarrow> acc) 0 ds"

text \<open>
  \<^verbatim>\<open>parseInt(str)\<close> without a radix: leading white space is skipped, one sign is read, a
  \<^verbatim>\<open>0x\<close> prefix selects base 16, and the longest run of digits is read as an integer,
  of which the nearest double is the result. No digit at all gives \<^verbatim>\<open>NaN\<close>.
\<close>

definition parseInt :: "string \<Rightarrow> number" where
  "parseInt str =
     (let s = dropWhile is_whitespace str;
          neg = (case s of c # _ \<Rightarrow> c = CHR ''-'' | [] \<Rightarrow> False);
          s1 = (case s of c # t \<Rightarrow> if c = CHR ''+'' \<or> c = CHR ''-'' then t else s | [] \<Rightarrow> s);
          hex = (case s1 of a # b # _ \<Rightarrow> a = CHR ''0'' \<and> (b = CHR ''x'' \<or> b = CHR ''X'')
                          | _ \<Rightarrow> False);
          radix = (if hex then 16 else 10);
          s2 = (if hex then drop 2 s1 else s1);
          ds = takeWhile (is_digit radix) s2
      in if ds = [] then NaN
         else to_double ((if neg then - 1 else 1) * digits_value radix ds))"

text \<open>\<^verbatim>\<open>n || d\<close> on a number: \<^verbatim>\<open>NaN\<close> and zero are falsy.\<close>

definition or_default :: "number \<Rightarrow> number \<Rightarrow> number" where
  "or_default n d = (if n = NaN \<or> n = Finite 0 then d else n)"

text \<open>The decimal rendering of a number inside a template string.\<close>

fun show_nat :: "nat \<Rightarrow> string" where
  "show_nat n =
     (if n < 10 then [char_of (48 + n)]
      else show_nat (n div 10) @ [char_of (48 + n mod 10)])"

section \<open>Handlers\<close>

text \<open>
  A handler is a closure created by one render of the component. What it reads through a
  state variable (\<^verbatim>\<open>timerSettings\<close>, \<^verbatim>\<open>userInput\<close>, \<^verbatim>\<open>conversations\<close>, ...) is the value
  of that render, \<open>r\<close>; a setter called with a value overwrites the current state \<open>s\<close>, and a
  setter called with a function reads \<open>s\<close>. A handler fired by a click or a key press
  belongs to the latest render, so there \<open>r = s\<close>.
\<close>

definition pauseTimer :: "state \<Rightarrow> state \<Rightarrow> state" where
  "pauseTimer r s = s\<lparr>timerSettings := (timerSettings r)\<lparr>active := False\<rparr>\<rparr>"

definition startTimer :: "state \<Rightarrow> state \<Rightarrow> state" where
  "startTimer r s =
     (let totalSeconds =
            js_add (js_mul (minutes (timerSettings r)) (Finite 60)) (seconds (timerSettings r))
      in s\<lparr>timeRemaining := totalSeconds,
           timerSettings := (timerSettings r)\<lparr>active := True\<rparr>,
           showTimerSettings := False\<rparr>)"

definition resetTimer :: "state \<Rightarrow> state \<Rightarrow> state" where
  "resetTimer r s =
     (pauseTimer r s)
       \<lparr>timeRemaining :=
          js_add (js_mul (minutes (timerSettings r)) (Finite 60)) (seconds (timerSettings r))\<rparr>"

definition nextRound :: "state \<Rightarrow> state \<Rightarrow> state" where
  "nextRound r s =
     (if int (currentRound r) < int (length (rounds r)) - 1 then
        let nextRoundIndex = currentRound r + 1;
            nextDuration = duration (rounds r ! nextRoundIndex)
        in s\<lparr>currentRound := nextRoundIndex,
             timerSettings :=
               \<lparr>minutes = js_floor_div_60 nextDuration, seconds = js_rem_60 nextDuration,
                active = False\<rparr>,
             timeRemaining := nextDuration\<rparr>
      else s)"

text \<open>
  \<^verbatim>\<open>startDebate\<close> up to its first \<^verbatim>\<open>await\<close>: the guard on the trimmed draft, the
  user message, the loading flag, the cleared draft, the paused timer and the request.
\<close>

definition startDebate :: "state \<Rightarrow> state \<Rightarrow> state" where
  "startDebate r s =
     (if trim (userInput r) = [] then s
      else
        let newUserMessage =
              \<lparr>mtype = User, content = Some (userInput r), mstance = Some (stance r),
               isError = None\<rparr>;
            s1 = s\<lparr>conversations := conversations r @ [newUserMessage],
                   loading := True, userInput := ''''\<rparr>;
            s2 = pauseTimer r s1
        in s2\<lparr>requests :=
                 requests s2 @ [\<lparr>req_userInput = userInput r, req_stance = stance r\<rparr>]\<rparr>)"

subsection \<open>The timer effect\<close>

text \<open>
  The sounds of one tick, in the order of the four tests. The four refs hold their audio
  elements from the first effect of the page on, so each \<^verbatim>\<open>?.play()\<close> plays.
\<close>

definition alert_sounds :: "bool \<Rightarrow> number \<Rightarrow> cue list" where
  "alert_sounds enabled newTime =
     (if enabled then
        (if newTime = Finite 30 then [ThirtySecond] else []) @
        (if newTime = Finite 15 then [FifteenSecond] else []) @
        (if newTime = Finite 5 then [FiveSecond] else []) @
        (if newTime = Finite 0 then [TimeUp] else [])
      else [])"

text \<open>
  The function given to \<^verbatim>\<open>setInterval\<close>. Its updater, run once for each firing,
  reads the current time from \<open>s\<close>; the sound flag, the draft and \<^verbatim>\<open>startDebate\<close>
  come from the render \<open>r\<close> in which the effect last ran.
\<close>

definition tick_callback :: "state \<Rightarrow> state \<Rightarrow> state" where
  "tick_callback r s =
     (let newTime = js_sub (timeRemaining s) (Finite 1);
          s1 = s\<lparr>played := played s @ alert_sounds (soundEnabled r) newTime\<rparr>;
          s2 = (if newTime = Finite 0 \<and> trim (userInput r) \<noteq> []
                then startDebate r s1 else s1)
      in s2\<lparr>timeRemaining := newTime\<rparr>)"

text \<open>
  The effect depends on \<^verbatim>\<open>timerSettings.active\<close> and \<^verbatim>\<open>timeRemaining\<close> and runs again
  whenever one of them changes, so an interval exists exactly while both tests hold of the
  current state.
\<close>

definition interval_set :: "state \<Rightarrow> bool" where
  "interval_set s = (active (timerSettings s) \<and> js_less (Finite 0) (timeRemaining s))"

text \<open>One second passes: the interval fires if there is one.\<close>

definition tick :: "state \<Rightarrow> state \<Rightarrow> state" where
  "tick r s = (if interval_set s then tick_callback r s else s)"

text \<open>
  A run of ticks with nothing in between. Every tick changes \<^verbatim>\<open>timeRemaining\<close>, so the
  effect runs again after each one and the next callback closes over the state it left.
\<close>

fun ticks :: "nat \<Rightarrow> state \<Rightarrow> state" where
  "ticks 0 s = s"
| "ticks (Suc n) s = ticks n (tick s s)"

subsection \<open>The draft and the keyboard\<close>

definition userInput_onChange :: "string \<Rightarrow> state \<Rightarrow> state" where
  "userInput_onChange v s = s\<lparr>userInput := v\<rparr>"

definition handleKeyDown :: "string \<Rightarrow> bool \<Rightarrow> state \<Rightarrow> state \<Rightarrow> state" where
  "handleKeyDown key shiftKey r s =
     (if key = ''Enter'' \<and> \<not> shiftKey then startDebate r s else s)"

text \<open>
  The send button calls \<^verbatim>\<open>startDebate\<close> and is disabled while
  \<^verbatim>\<open>loading || !userInput.trim()\<close>; a disabled button gives no click.
\<close>

definition send_onClick :: "state \<Rightarrow> state \<Rightarrow> state" where
  "send_onClick r s = (if loading r \<or> trim (userInput r) = [] then s else startDebate r s)"

subsection \<open>The answer of the service\<close>

text \<open>
  What the two awaited promises of \<^verbatim>\<open>startDebate\<close> can do. \<^verbatim>\<open>fetch\<close> rejects, or
  resolves to a response with a status, whatever the status is. Then \<^verbatim>\<open>res.json()\<close>
  rejects, or resolves to \<^verbatim>\<open>null\<close>, or resolves to a value whose \<^verbatim>\<open>aiResponse\<close>
  property is a string or is missing.
\<close>

datatype json_result = JsonRejects | JsonNull | JsonData "string option"

datatype fetch_result = FetchRejects | Response nat json_result

text \<open>The body of \<^verbatim>\<open>try\<close>: the message it appends, or \<open>None\<close> when it throws.\<close>

fun try_block :: "fetch_result \<Rightarrow> message option" where
  "try_block FetchRejects = None"
| "try_block (Response status JsonRejects) = None"
| "try_block (Response status JsonNull) = None"
| "try_block (Response status (JsonData aiResponse)) =
     Some \<lparr>mtype = Ai, content = aiResponse, mstance = None, isError = None\<rparr>"

definition errorMessage :: message where
  "errorMessage =
     \<lparr>mtype = Ai, content = Some ''Unable to generate response. Please try again.'',
      mstance = None, isError = Some True\<rparr>"

text \<open>
  \<^verbatim>\<open>startDebate\<close> from its first \<^verbatim>\<open>await\<close> on: \<^verbatim>\<open>try\<close>, \<^verbatim>\<open>catch\<close> and
  \<^verbatim>\<open>finally\<close>. Both appends use the updater form, so they read the current state.
\<close>

definition startDebate_settle :: "fetch_result \<Rightarrow> state \<Rightarrow> state" where
  "startDebate_settle res s =
     (let newMessage = (case try_block res of Some newAIMessage \<Rightarrow> newAIMessage
                                            | None \<Rightarrow> errorMessage)
      in s\<lparr>conversations := conversations s @ [newMessage], loading := False\<rparr>)"

subsection \<open>The settings panel\<close>

definition minutes_onChange :: "string \<Rightarrow> state \<Rightarrow> state \<Rightarrow> state" where
  "minutes_onChange v r s =
     s\<lparr>timerSettings := (timerSettings r)\<lparr>minutes := or_default (parseInt v) (Finite 0)\<rparr>\<rparr>"

definition seconds_onChange :: "string \<Rightarrow> state \<Rightarrow> state \<Rightarrow> state" where
  "seconds_onChange v r s =
     s\<lparr>timerSettings := (timerSettings r)\<lparr>seconds := or_default (parseInt v) (Finite 0)\<rparr>\<rparr>"

text \<open>
  The two inputs of a round write into the element at \<open>index\<close> of a copy of the list. The
  inputs exist for the positions of the list only; at any other position the write would
  throw before \<^verbatim>\<open>setRounds\<close> is reached.
\<close>

definition round_name_onChange :: "nat \<Rightarrow> string \<Rightarrow> state \<Rightarrow> state \<Rightarrow> state" where
  "round_name_onChange index v r s =
     (if index < length (rounds r)
      then s\<lparr>rounds := (rounds r)[index := (rounds r ! index)\<lparr>name := v\<rparr>]\<rparr>
      else s)"

definition round_duration_onChange :: "nat \<Rightarrow> string \<Rightarrow> state \<Rightarrow> state \<Rightarrow> state" where
  "round_duration_onChange index v r s =
     (if index < length (rounds r)
      then s\<lparr>rounds :=
               (rounds r)[index :=
                 (rounds r ! index)\<lparr>duration := or_default (parseInt v) (Finite 60)\<rparr>]\<rparr>
      else s)"

text \<open>\<^verbatim>\<open>xs.filter((_, i) => i !== index)\<close>\<close>

definition filter_index :: "nat \<Rightarrow> 'a list \<Rightarrow> 'a list" where
  "filter_index index xs = map snd (filter (\<lambda>(i, _). i \<noteq> index) (enumerate 0 xs))"

text \<open>
  The remove button of a round is rendered only while the plan has more than one round;
  without the button there is no click. Under that test the new plan is not empty, so the
  subtraction stays a list position.
\<close>

definition remove_round_onClick :: "nat \<Rightarrow> state \<Rightarrow> state \<Rightarrow> state" where
  "remove_round_onClick index r s =
     (if length (rounds r) > 1 then
        let newRounds = filter_index index (rounds r);
            s1 = s\<lparr>rounds := newRounds\<rparr>
        in if currentRound r \<ge> length newRounds
           then s1\<lparr>currentRound := length newRounds - 1\<rparr>
           else s1
      else s)"

definition add_round_onClick :: "state \<Rightarrow> state \<Rightarrow> state" where
  "add_round_onClick r s =
     s\<lparr>rounds :=
         rounds r @
         [\<lparr>name = ''Round '' @ show_nat (length (rounds r) + 1), duration = Finite 120\<rparr>]\<rparr>"

section \<open>Vocabulary of the specification\<close>


text \<open>
  Configuring the timer is typing into the minutes input and then into the seconds input
  of the settings panel, each handler belonging to the render its predecessor caused.
\<close>

definition configure :: "string \<Rightarrow> string \<Rightarrow> state \<Rightarrow> state" where
  "configure m sec s = (let s1 = minutes_onChange m s s in seconds_onChange sec s1 s1)"


text \<open>
  The timer set to 0 minutes 9007199254740994 seconds, which is \<open>2 ^ 53 + 2\<close>, on a fresh
  page and started.
\<close>

definition large_timer :: state where
  "large_timer = (let c = configure ''0'' ''9007199254740994'' initial_state in startTimer c c)"

text \<open>The timer set to -5 minutes 0 seconds on a fresh page and started.\<close>

definition negative_timer :: state where
  "negative_timer = (let c = configure ''-5'' ''0'' initial_state in startTimer c c)"


text \<open>
  A fresh page on which the default two minutes are started, thirty seconds pass and the
  timer is paused.
\<close>

definition paused_at_90 :: state where
  "paused_at_90 =
     (let s1 = ticks 30 (startTimer initial_state initial_state) in pauseTimer s1 s1)"

text \<open>
  A fresh page on which a first argument is sent, and, before the service answers, a
  second draft is typed, the timer is set to one second and started.
\<close>

definition awaiting_with_draft :: state where
  "awaiting_with_draft =
     (let s1 = userInput_onChange ''a'' initial_state;
          s2 = startDebate s1 s1;
          s3 = userInput_onChange ''b'' s2;
          s4 = configure ''0'' ''1'' s3
      in startTimer s4 s4)"

text \<open>A fresh page on which one argument has been sent and the service has not answered.\<close>

definition awaiting_response :: state where
  "awaiting_response =
     (let s1 = userInput_onChange ''Tax cuts help growth'' initial_state in startDebate s1 s1)"

text \<open>The plan of two rounds with the first one active.\<close>

definition two_round_plan :: state where
  "two_round_plan =
     initial_state\<lparr>rounds := [\<lparr>name = ''Opening'', duration = Finite 120\<rparr>,
                             \<lparr>name = ''Rebuttal'', duration = Finite 180\<rparr>]\<rparr>"

section \<open>Numbers in the exact range\<close>

lemma bit_length_bound: "n < 2 ^ k \<Longrightarrow> bit_length n \<le> k"
proof (induction k arbitrary: n)
  case 0
  then show ?case by (subst bit_length.simps) simp
next
  case (Suc k)
  show ?case
  proof (cases "n \<le> 0")
    case True
    then show ?thesis by (subst bit_length.simps) simp
  next
    case False
    from Suc.prems have "n div 2 < 2 ^ k" by simp
    then have "bit_length (n div 2) \<le> k" by (rule Suc.IH)
    with False show ?thesis by (subst bit_length.simps) simp
  qed
qed

lemma to_double_exact: "\<bar>x\<bar> < 2 ^ 53 \<Longrightarrow> to_double x = Finite x"
proof -
  assume "\<bar>x\<bar> < 2 ^ 53"
  then have "bit_length \<bar>x\<bar> \<le> 53" by (rule bit_length_bound)
  then show ?thesis by (simp add: to_double_def Let_def)
qed

lemma js_sub_one: "js_sub (Finite x) (Finite 1) = to_double (x - 1)"
  by (simp add: js_sub_def)

lemma round_half_even_cases:
  "round_half_even p q = p div q \<or>
   (round_half_even p q = p div q + 1 \<and> q \<le> 2 * (p mod q))"
  by (simp add: round_half_even_def Let_def)

lemma scaled_quotient:
  fixes a scale :: int
  assumes "0 \<le> a" and "32 \<le> scale"
  shows "round_half_even (a * scale) 60 div scale = a div 60"
proof -
  define K where "K = a div 60"
  define R where "R = a mod 60"
  define g where "g = (R * scale) div 60"
  define h where "h = (R * scale) mod 60"
  have a: "a = 60 * K + R" and R: "0 \<le> R" "R \<le> 59"
    by (simp_all add: K_def R_def) 
  have rs: "R * scale = 60 * g + h" and h: "0 \<le> h" "h < 60"
    by (simp_all add: g_def h_def)
  have "R * scale \<le> 59 * scale"
    using R(2) assms(2) by (intro mult_right_mono) simp_all
  with rs have gh: "60 * g + h \<le> 59 * scale" by simp
  have "0 \<le> R * scale" using R(1) assms(2) by simp
  then have g0: "0 \<le> g" by (simp add: g_def pos_imp_zdiv_nonneg_iff)
  define X where "X = K * scale + g"
  have prod: "a * scale = 60 * X + h"
    using rs by (simp add: a X_def algebra_simps)
  have d: "(a * scale) div 60 = K * scale + g"
    unfolding prod using h by (simp add: X_def)
  have m: "(a * scale) mod 60 = h"
    unfolding prod using h by simp
  from round_half_even_cases [of "a * scale" 60]
  obtain delta :: int where n: "round_half_even (a * scale) 60 = K * scale + g + delta"
    and delta: "delta = 0 \<or> (delta = 1 \<and> 30 \<le> h)"
    unfolding d m by auto
  have lo: "0 \<le> g + delta" using g0 delta by auto
  have hi: "g + delta < scale" using gh h delta assms(2) by auto
  have "(K * scale + (g + delta)) div scale = K"
    using lo hi assms(2) by (simp add: div_pos_pos_trivial)
  then show ?thesis by (simp add: n K_def add.assoc)
qed

lemma js_floor_div_60_exact:
  assumes "0 \<le> a" and "a < 2 ^ 53"
  shows "js_floor_div_60 (Finite a) = Finite (a div 60)"
proof (cases "a = 0")
  case True
  then show ?thesis by simp
next
  case False
  with assms have pos: "0 < a" by simp
  define b where "b = bit_length \<bar>a\<bar>"
  define e where "e = (if 60 * 2 ^ b \<le> \<bar>a\<bar> * 64 then int b - 6 else int b - 7)"
  from assms have "\<bar>a\<bar> < 2 ^ 53" by simp
  then have "b \<le> 53" unfolding b_def by (rule bit_length_bound)
  then have e: "e \<le> 47" by (simp add: e_def)
  have unfolded: "js_floor_div_60 (Finite a) =
      Finite ((sgn a * round_half_even (\<bar>a\<bar> * 2 ^ nat (52 - e)) 60) div 2 ^ nat (52 - e))"
    using False e unfolding e_def b_def by (simp add: Let_def)
  from e have "5 \<le> nat (52 - e)" by simp
  then have "(2::int) ^ 5 \<le> 2 ^ nat (52 - e)"
    by (intro power_increasing) simp_all
  then have s: "(32::int) \<le> 2 ^ nat (52 - e)" by simp
  from pos have sg: "sgn a = 1" "\<bar>a\<bar> = a" by simp_all
  have "js_floor_div_60 (Finite a) =
      Finite (round_half_even (a * 2 ^ nat (52 - e)) 60 div 2 ^ nat (52 - e))"
    unfolding unfolded sg by simp
  also have "\<dots> = Finite (a div 60)"
    using scaled_quotient [OF assms(1) s] by simp
  finally show ?thesis .
qed

section \<open>The timer\<close>

lemma startDebate_timeRemaining: "timeRemaining (startDebate r s) = timeRemaining s"
  by (simp add: startDebate_def pauseTimer_def Let_def)

lemma tick_timeRemaining:
  "timeRemaining (tick r s) =
     (if interval_set s then js_sub (timeRemaining s) (Finite 1) else timeRemaining s)"
  by (simp add: tick_def tick_callback_def Let_def startDebate_timeRemaining)

text \<open>
  C1, as stated, fails for large times. A timer started at 9007199254740994 seconds is
  running, and one tick leaves 9007199254740992: the difference \<open>2 ^ 53 + 1\<close> is not a
  double, and the subtraction rounds it to the even neighbour.
\<close>

theorem tick_large_counterexample:
  "active (timerSettings large_timer) \<and>
   timeRemaining large_timer = Finite 9007199254740994 \<and>
   timeRemaining (tick large_timer large_timer) \<noteq> Finite (9007199254740994 - 1)"
  by code_simp

text \<open>
  C1, amended. One tick of a running timer whose remaining time is an integer \<open>t\<close> with
  \<open>0 \<le> t \<le> 2 ^ 53\<close>: for \<open>t > 0\<close> the remaining time becomes \<open>t - 1\<close>; for \<open>t = 0\<close> no
  interval exists and the state is left as it is.
\<close>

theorem tick_decrements:
  assumes "active (timerSettings s)" and "timeRemaining s = Finite t"
    and "0 \<le> t" and "t \<le> 2 ^ 53"
  shows "(0 < t \<longrightarrow> timeRemaining (tick r s) = Finite (t - 1)) \<and>
         (t = 0 \<longrightarrow> tick r s = s)"
proof -
  have "timeRemaining (tick r s) = Finite (t - 1)" if "0 < t"
  proof -
    from that assms have "\<bar>t - 1\<bar> < 2 ^ 53" by simp
    then have "to_double (t - 1) = Finite (t - 1)" by (rule to_double_exact)
    with that assms(1,2) show ?thesis
      by (simp add: tick_timeRemaining interval_set_def js_sub_one)
  qed
  moreover have "tick r s = s" if "t = 0"
    using that assms(2) by (simp add: tick_def interval_set_def)
  ultimately show ?thesis by blast
qed

theorem tick_decrements_witness:
  "timeRemaining (tick initial_state (startTimer initial_state initial_state)) = Finite 119 \<and>
   tick initial_state
     (initial_state\<lparr>timerSettings := \<lparr>minutes = Finite 0, seconds = Finite 0, active = True\<rparr>,
                    timeRemaining := Finite 0\<rparr>) =
     initial_state\<lparr>timerSettings := \<lparr>minutes = Finite 0, seconds = Finite 0, active = True\<rparr>,
                   timeRemaining := Finite 0\<rparr>"
proof -
  have s: "active (timerSettings (startTimer initial_state initial_state))"
    "timeRemaining (startTimer initial_state initial_state) = Finite 120"
    by code_simp+
  from tick_decrements [of "startTimer initial_state initial_state" 120 initial_state]
    tick_decrements
      [of "initial_state\<lparr>timerSettings := \<lparr>minutes = Finite 0, seconds = Finite 0, active = True\<rparr>,
                         timeRemaining := Finite 0\<rparr>" 0 initial_state]
    s
  show ?thesis by simp
qed

subsection \<open>Cues\<close>















subsection \<open>Expiry\<close>

lemma startDebate_submits:
  "trim (userInput r) \<noteq> [] \<Longrightarrow>
   startDebate r s =
     s\<lparr>conversations :=
         conversations r @
         [\<lparr>mtype = User, content = Some (userInput r), mstance = Some (stance r),
           isError = None\<rparr>],
       loading := True, userInput := '''',
       timerSettings := (timerSettings r)\<lparr>active := False\<rparr>,
       requests := requests s @ [\<lparr>req_userInput = userInput r, req_stance = stance r\<rparr>]\<rparr>"
  by (simp add: startDebate_def pauseTimer_def Let_def)

lemma expiry_submits:
  assumes "active (timerSettings s)" and "timeRemaining s = Finite 1"
    and "trim (userInput r) \<noteq> []"
  shows "requests (tick r s) =
           requests s @ [\<lparr>req_userInput = userInput r, req_stance = stance r\<rparr>]"
    and "conversations (tick r s) =
           conversations r @
           [\<lparr>mtype = User, content = Some (userInput r), mstance = Some (stance r),
             isError = None\<rparr>]"
    and "timeRemaining (tick r s) = Finite 0"
    and "\<not> interval_set (tick r s)"
proof -
  have "to_double 0 = Finite 0" by (rule to_double_exact) simp
  with assms show
    "requests (tick r s) =
       requests s @ [\<lparr>req_userInput = userInput r, req_stance = stance r\<rparr>]"
    "conversations (tick r s) =
       conversations r @
       [\<lparr>mtype = User, content = Some (userInput r), mstance = Some (stance r),
         isError = None\<rparr>]"
    "timeRemaining (tick r s) = Finite 0"
    "\<not> interval_set (tick r s)"
    by (simp_all add: tick_def tick_callback_def Let_def startDebate_submits interval_set_def
        js_sub_one)
qed

lemma tick_stopped: "\<not> js_less (Finite 0) (timeRemaining s) \<Longrightarrow> tick r s = s"
  by (simp add: tick_def interval_set_def)

lemma ticks_stopped: "\<not> js_less (Finite 0) (timeRemaining s) \<Longrightarrow> ticks n s = s"
  by (induction n) (simp_all add: tick_stopped)

text \<open>
  C2. The expiry of the timer calls \<^verbatim>\<open>startDebate\<close>, whose only guard is the trimmed
  draft. On the page that is still waiting for the answer to \<open>''a''\<close>, with the draft
  \<open>''b''\<close> and one second left, the send button does nothing, but the tick sends
  \<open>''b''\<close> as a second request and appends it to the transcript: the submission at
  expiry is not dropped.
\<close>

theorem expiry_while_loading_submits:
  "loading awaiting_with_draft \<and>
   requests awaiting_with_draft = [\<lparr>req_userInput = ''a'', req_stance = ''pro''\<rparr>] \<and>
   send_onClick awaiting_with_draft awaiting_with_draft = awaiting_with_draft \<and>
   requests (tick awaiting_with_draft awaiting_with_draft) =
     [\<lparr>req_userInput = ''a'', req_stance = ''pro''\<rparr>,
      \<lparr>req_userInput = ''b'', req_stance = ''pro''\<rparr>] \<and>
   length (conversations (tick awaiting_with_draft awaiting_with_draft)) =
     length (conversations awaiting_with_draft) + 1"
  by code_simp

subsection \<open>Starting\<close>

text \<open>
  C4, as stated, fails: on the timer paused at 90 of its 120 seconds, starting puts the
  remaining time back to 120.
\<close>

theorem startTimer_counterexample:
  "timeRemaining (startTimer paused_at_90 paused_at_90) \<noteq> timeRemaining paused_at_90"
  by code_simp

text \<open>
  C4, amended. Starting sets the running flag, loads the configured duration
  \<open>minutes * 60 + seconds\<close> into the remaining time and closes the settings panel, in
  every state, also when the timer is running or the remaining time is 0. The configured
  minutes and seconds and every other part of the state stay as they are. The duration is
  the value of the JavaScript expression, which is the integer \<open>m * 60 + sec\<close> whenever the
  product and the sum stay below \<open>2 ^ 53\<close> in size.
\<close>

theorem startTimer_loads_configured:
  "active (timerSettings (startTimer s s)) \<and>
   timeRemaining (startTimer s s) =
     js_add (js_mul (minutes (timerSettings s)) (Finite 60)) (seconds (timerSettings s)) \<and>
   (minutes (timerSettings s) = Finite m \<and> seconds (timerSettings s) = Finite sec \<and>
    \<bar>m * 60\<bar> < 2 ^ 53 \<and> \<bar>m * 60 + sec\<bar> < 2 ^ 53
      \<longrightarrow> timeRemaining (startTimer s s) = Finite (m * 60 + sec)) \<and>
   \<not> showTimerSettings (startTimer s s) \<and>
   minutes (timerSettings (startTimer s s)) = minutes (timerSettings s) \<and>
   seconds (timerSettings (startTimer s s)) = seconds (timerSettings s) \<and>
   (startTimer s s)\<lparr>timeRemaining := timeRemaining s, timerSettings := timerSettings s,
                     showTimerSettings := showTimerSettings s\<rparr> = s"
  by (simp add: startTimer_def Let_def to_double_exact)

theorem startTimer_loads_configured_witness:
  "active (timerSettings (startTimer paused_at_90 paused_at_90)) \<and>
   timeRemaining paused_at_90 = Finite 90 \<and>
   timeRemaining (startTimer paused_at_90 paused_at_90) = Finite 120"
proof -
  have "minutes (timerSettings paused_at_90) = Finite 2"
    "seconds (timerSettings paused_at_90) = Finite 0"
    "timeRemaining paused_at_90 = Finite 90"
    by code_simp+
  with startTimer_loads_configured [of paused_at_90 2 0] show ?thesis
    by (simp add: to_double_exact)
qed

subsection \<open>The answer of the service\<close>

lemma settle_thrown:
  "res = FetchRejects \<or> res = Response status JsonRejects \<or> res = Response status JsonNull \<Longrightarrow>
   startDebate_settle res s =
     s\<lparr>conversations := conversations s @ [errorMessage], loading := False\<rparr>"
  by (auto simp add: startDebate_settle_def)

text \<open>
  C5. The status of the response is never read. While the page waits for the answer to
  its first argument, an answer with status 500 whose body is JSON without an
  \<^verbatim>\<open>aiResponse\<close> property is appended as an ordinary reply with undefined content; the
  placeholder reply is not appended.
\<close>

theorem non_success_status_reply:
  "conversations (startDebate_settle (Response 500 (JsonData None)) awaiting_response) =
     conversations awaiting_response @
     [\<lparr>mtype = Ai, content = None, mstance = None, isError = None\<rparr>] \<and>
   errorMessage \<notin>
     set (conversations (startDebate_settle (Response 500 (JsonData None)) awaiting_response))"
  by code_simp

subsection \<open>Configuring the timer\<close>

text \<open>
  C6. Typing \<open>-5\<close> into the minutes input stores \<open>-5\<close>; nothing sets it to 0. Starting
  the timer then loads \<open>-300\<close> seconds and marks the timer running, and no interval is
  set.
\<close>

theorem negative_minutes_stored:
  "minutes (timerSettings (configure ''-5'' ''0'' initial_state)) = Finite (- 5) \<and>
   timeRemaining negative_timer = Finite (- 300) \<and>
   active (timerSettings negative_timer) \<and>
   \<not> interval_set negative_timer"
  by code_simp

subsection \<open>Editing the plan\<close>

lemma enumerate_filter_all:
  "k < n \<Longrightarrow> filter (\<lambda>(i, _). i \<noteq> k) (enumerate n xs) = enumerate n xs"
  by (induction xs arbitrary: n) auto

lemma filter_index_from:
  "index < length xs \<Longrightarrow>
   map snd (filter (\<lambda>(i, _). i \<noteq> n + index) (enumerate n xs)) =
   take index xs @ drop (Suc index) xs"
proof (induction xs arbitrary: n index)
  case Nil
  then show ?case by simp
next
  case (Cons x xs)
  show ?case
  proof (cases index)
    case 0
    then show ?thesis by (simp add: enumerate_filter_all)
  next
    case (Suc k)
    with Cons.prems have "k < length xs" by simp
    from Cons.IH [OF this, of "Suc n"] Suc show ?thesis by simp
  qed
qed

lemma filter_index_take_drop:
  "index < length xs \<Longrightarrow> filter_index index xs = take index xs @ drop (Suc index) xs"
  using filter_index_from [of index xs 0] by (simp add: filter_index_def)

lemma filter_index_length:
  "index < length xs \<Longrightarrow> length (filter_index index xs) = length xs - 1"
  by (simp add: filter_index_take_drop)

text \<open>
  C7. A plan of one round has no remove button, and the plan stays as it is. On a longer
  plan, removing the round at a position of the plan leaves the rounds before and after
  it in order, one round fewer; a cursor that would point past the new plan is set to its
  last position and any other cursor is kept, so the cursor points into the new plan.
\<close>

theorem remove_round_keeps_cursor:
  assumes "index < length (rounds s)"
  shows "(length (rounds s) = 1 \<longrightarrow> remove_round_onClick index s s = s) \<and>
         (length (rounds s) > 1 \<longrightarrow>
            rounds (remove_round_onClick index s s) =
              take index (rounds s) @ drop (Suc index) (rounds s) \<and>
            length (rounds (remove_round_onClick index s s)) = length (rounds s) - 1 \<and>
            currentRound (remove_round_onClick index s s) =
              (if currentRound s \<ge> length (rounds (remove_round_onClick index s s))
               then length (rounds (remove_round_onClick index s s)) - 1
               else currentRound s) \<and>
            currentRound (remove_round_onClick index s s) <
              length (rounds (remove_round_onClick index s s))) \<and>
         (currentRound s < length (rounds s) \<longrightarrow>
            currentRound (remove_round_onClick index s s) <
              length (rounds (remove_round_onClick index s s)))"
proof -
  have one: "length (rounds s) = 1 \<longrightarrow> remove_round_onClick index s s = s"
    by (simp add: remove_round_onClick_def)
  have more: "rounds (remove_round_onClick index s s) =
              take index (rounds s) @ drop (Suc index) (rounds s) \<and>
            length (rounds (remove_round_onClick index s s)) = length (rounds s) - 1 \<and>
            currentRound (remove_round_onClick index s s) =
              (if currentRound s \<ge> length (rounds (remove_round_onClick index s s))
               then length (rounds (remove_round_onClick index s s)) - 1
               else currentRound s) \<and>
            currentRound (remove_round_onClick index s s) <
              length (rounds (remove_round_onClick index s s))"
    if "length (rounds s) > 1"
  proof -
    from assms have l: "length (filter_index index (rounds s)) = length (rounds s) - 1"
      by (rule filter_index_length)
    from assms have e: "filter_index index (rounds s) =
        take index (rounds s) @ drop (Suc index) (rounds s)"
      by (rule filter_index_take_drop)
    have r: "rounds (remove_round_onClick index s s) = filter_index index (rounds s)"
      using that by (simp add: remove_round_onClick_def Let_def)
    have c: "currentRound (remove_round_onClick index s s) =
        (if currentRound s \<ge> length (filter_index index (rounds s))
         then length (filter_index index (rounds s)) - 1
         else currentRound s)"
      using that by (simp add: remove_round_onClick_def Let_def)
    from that l have "0 < length (filter_index index (rounds s))" by simp
    with c l r e show ?thesis by auto
  qed
  have inv: "currentRound (remove_round_onClick index s s) <
              length (rounds (remove_round_onClick index s s))"
    if "currentRound s < length (rounds s)"
  proof (cases "length (rounds s) > 1")
    case True
    with more show ?thesis by blast
  next
    case False
    then have "remove_round_onClick index s s = s"
      by (simp add: remove_round_onClick_def)
    with that show ?thesis by simp
  qed
  from one more inv show ?thesis by blast
qed

theorem remove_round_keeps_cursor_witness:
  "rounds (remove_round_onClick 2 (initial_state\<lparr>currentRound := 2\<rparr>)
                                  (initial_state\<lparr>currentRound := 2\<rparr>)) =
     [\<lparr>name = ''Opening Statement'', duration = Finite 120\<rparr>, \<lparr>name = ''Rebuttal'', duration = Finite 180\<rparr>] \<and>
   currentRound (remove_round_onClick 2 (initial_state\<lparr>currentRound := 2\<rparr>)
                                        (initial_state\<lparr>currentRound := 2\<rparr>)) = 1 \<and>
   remove_round_onClick 0 (initial_state\<lparr>rounds := [\<lparr>name = ''Only'', duration = Finite 60\<rparr>]\<rparr>)
                          (initial_state\<lparr>rounds := [\<lparr>name = ''Only'', duration = Finite 60\<rparr>]\<rparr>) =
     initial_state\<lparr>rounds := [\<lparr>name = ''Only'', duration = Finite 60\<rparr>]\<rparr>"
  using remove_round_keeps_cursor [of 2 "initial_state\<lparr>currentRound := 2\<rparr>"]
    remove_round_keeps_cursor [of 0 "initial_state\<lparr>rounds := [\<lparr>name = ''Only'', duration = Finite 60\<rparr>]\<rparr>"]
  by (simp add: initial_state_def)

text \<open>
  C8. Typing \<open>3\<close> into the duration input of the first round stores a duration of 3
  seconds: the number read is stored without a comparison against 5.
\<close>

theorem short_duration_stored:
  "duration (rounds (round_duration_onChange 0 ''3'' initial_state initial_state) ! 0) = Finite 3 \<and>
   js_less (Finite 3) (Finite 5)"
  by code_simp

lemma round_duration_default:
  "index < length (rounds s) \<Longrightarrow> parseInt v = NaN \<Longrightarrow>
   duration (rounds (round_duration_onChange index v s s) ! index) = Finite 60"
  by (simp add: round_duration_onChange_def or_default_def)

lemma add_round_appends:
  "rounds (add_round_onClick s s) =
     rounds s @
     [\<lparr>name = ''Round '' @ show_nat (length (rounds s) + 1), duration = Finite 120\<rparr>]"
  by (simp add: add_round_onClick_def)

subsection \<open>Advancing\<close>

text \<open>Beyond the exact range the quotient by 60 can round up to the next integer.\<close>

lemma js_floor_div_60_rounds_up:
  "js_floor_div_60 (Finite 72057594037928096) = Finite (72057594037928096 div 60 + 1)"
  by code_simp

text \<open>
  C9. While a round follows the active one, advancing moves the cursor to it, loads its
  duration into the remaining time and leaves the timer paused; for a duration \<open>d\<close> from
  0 to below \<open>2 ^ 53\<close> the configured minutes and seconds are \<open>d div 60\<close> and \<open>d mod 60\<close>,
  which add up to it. On the last round advancing changes nothing. From the plan Opening
  120, Rebuttal 180 with the first round active, the cursor becomes 1 and the timer holds
  180 seconds as 3 minutes 0 seconds, paused.
\<close>

theorem nextRound_loads_duration:
  "(currentRound s + 1 < length (rounds s) \<longrightarrow>
      currentRound (nextRound s s) = currentRound s + 1 \<and>
      timeRemaining (nextRound s s) = duration (rounds s ! (currentRound s + 1)) \<and>
      \<not> active (timerSettings (nextRound s s)) \<and>
      rounds (nextRound s s) = rounds s \<and>
      (duration (rounds s ! (currentRound s + 1)) = Finite d \<and> 0 \<le> d \<and> d < 2 ^ 53 \<longrightarrow>
         minutes (timerSettings (nextRound s s)) = Finite (d div 60) \<and>
         seconds (timerSettings (nextRound s s)) = Finite (d mod 60) \<and>
         (d div 60) * 60 + d mod 60 = d \<and> 0 \<le> d mod 60 \<and> d mod 60 < 60)) \<and>
   (length (rounds s) \<le> currentRound s + 1 \<longrightarrow> nextRound s s = s) \<and>
   currentRound (nextRound two_round_plan two_round_plan) = 1 \<and>
   timeRemaining (nextRound two_round_plan two_round_plan) = Finite 180 \<and>
   timerSettings (nextRound two_round_plan two_round_plan) =
     \<lparr>minutes = Finite 3, seconds = Finite 0, active = False\<rparr>"
proof -
  have step: "currentRound (nextRound s s) = currentRound s + 1 \<and>
      timeRemaining (nextRound s s) = duration (rounds s ! (currentRound s + 1)) \<and>
      \<not> active (timerSettings (nextRound s s)) \<and>
      rounds (nextRound s s) = rounds s \<and>
      (duration (rounds s ! (currentRound s + 1)) = Finite d \<and> 0 \<le> d \<and> d < 2 ^ 53 \<longrightarrow>
         minutes (timerSettings (nextRound s s)) = Finite (d div 60) \<and>
         seconds (timerSettings (nextRound s s)) = Finite (d mod 60) \<and>
         (d div 60) * 60 + d mod 60 = d \<and> 0 \<le> d mod 60 \<and> d mod 60 < 60)"
    if "currentRound s + 1 < length (rounds s)"
  proof -
    from that have g: "int (currentRound s) < int (length (rounds s)) - 1" by simp
    have r: "js_rem_60 (Finite d) = Finite (d mod 60)" if "0 \<le> d"
      using that by (cases "d = 0") simp_all
    show ?thesis
      by (simp add: nextRound_def g Let_def js_floor_div_60_exact r
          del: js_floor_div_60.simps js_rem_60.simps)
  qed
  have last: "nextRound s s = s" if "length (rounds s) \<le> currentRound s + 1"
  proof -
    from that have "\<not> int (currentRound s) < int (length (rounds s)) - 1" by simp
    then show ?thesis by (simp add: nextRound_def)
  qed
  have scenario: "currentRound (nextRound two_round_plan two_round_plan) = 1 \<and>
      timeRemaining (nextRound two_round_plan two_round_plan) = Finite 180 \<and>
      timerSettings (nextRound two_round_plan two_round_plan) =
        \<lparr>minutes = Finite 3, seconds = Finite 0, active = False\<rparr>"
    by code_simp
  from step last scenario show ?thesis by blast
qed

theorem nextRound_loads_duration_witness:
  "currentRound initial_state + 1 < length (rounds initial_state) \<and>
   currentRound (nextRound initial_state initial_state) = 1 \<and>
   timeRemaining (nextRound initial_state initial_state) = Finite 180 \<and>
   minutes (timerSettings (nextRound initial_state initial_state)) = Finite 3 \<and>
   seconds (timerSettings (nextRound initial_state initial_state)) = Finite 0 \<and>
   \<not> active (timerSettings (nextRound initial_state initial_state)) \<and>
   length (rounds (initial_state\<lparr>currentRound := 2\<rparr>)) \<le>
     currentRound (initial_state\<lparr>currentRound := 2\<rparr>) + 1 \<and>
   nextRound (initial_state\<lparr>currentRound := 2\<rparr>) (initial_state\<lparr>currentRound := 2\<rparr>) =
     initial_state\<lparr>currentRound := 2\<rparr>"
  using nextRound_loads_duration [of initial_state 180]
    nextRound_loads_duration [of "initial_state\<lparr>currentRound := 2\<rparr>" 0]
  by (simp add: initial_state_def)

subsection \<open>Submitting\<close>

lemma trim_empty_iff: "(trim d = []) = (\<forall>c \<in> set d. is_whitespace c)"
proof
  assume "trim d = []"
  then have "dropWhile is_whitespace (rev (dropWhile is_whitespace d)) = []"
    by (simp add: trim_def)
  then have a: "\<forall>c \<in> set (dropWhile is_whitespace d). is_whitespace c"
    by simp
  show "\<forall>c \<in> set d. is_whitespace c"
  proof (rule ccontr)
    assume "\<not> (\<forall>c \<in> set d. is_whitespace c)"
    then have "dropWhile is_whitespace d \<noteq> []"
      by simp
    then have "\<not> is_whitespace (hd (dropWhile is_whitespace d))"
      by (rule hd_dropWhile)
    moreover from \<open>dropWhile is_whitespace d \<noteq> []\<close>
    have "hd (dropWhile is_whitespace d) \<in> set (dropWhile is_whitespace d)"
      by simp
    ultimately show False using a by blast
  qed
next
  assume "\<forall>c \<in> set d. is_whitespace c"
  then show "trim d = []"
    by (auto simp add: trim_def dest: set_dropWhileD)
qed

text \<open>
  C10. A draft trims to the empty string exactly when all its characters are white
  space. Submitting such a draft returns at the guard of \<^verbatim>\<open>startDebate\<close>, and the
  Enter key and the send button do no more: the whole state is as before, so the
  transcript has its old length, no request is sent, loading is as it was and no reply,
  failed or not, is appended.
\<close>

theorem empty_draft_is_dropped:
  "(trim (userInput s) = [] \<longleftrightarrow> (\<forall>c \<in> set (userInput s). is_whitespace c)) \<and>
   (trim (userInput s) = [] \<longrightarrow>
      startDebate s s = s \<and>
      handleKeyDown key shiftKey s s = s \<and>
      send_onClick s s = s \<and>
      length (conversations (startDebate s s)) = length (conversations s) \<and>
      requests (startDebate s s) = requests s \<and>
      loading (startDebate s s) = loading s)"
  by (simp add: trim_empty_iff startDebate_def handleKeyDown_def send_onClick_def)

theorem empty_draft_is_dropped_witness:
  "trim (userInput (userInput_onChange ''  '' initial_state)) = [] \<and>
   startDebate (userInput_onChange ''  '' initial_state) (userInput_onChange ''  '' initial_state) =
     userInput_onChange ''  '' initial_state \<and>
   length (conversations (startDebate (userInput_onChange ''  '' initial_state)
                                      (userInput_onChange ''  '' initial_state))) = 0 \<and>
   \<not> loading (startDebate (userInput_onChange ''  '' initial_state)
                          (userInput_onChange ''  '' initial_state))"
proof -
  have t: "trim (userInput (userInput_onChange ''  '' initial_state)) = []"
    by code_simp
  have i: "conversations (userInput_onChange ''  '' initial_state) = []"
    "\<not> loading (userInput_onChange ''  '' initial_state)"
    by (simp_all add: userInput_onChange_def initial_state_def)
  from empty_draft_is_dropped [of "userInput_onChange ''  '' initial_state"] t i
  show ?thesis by simp
qed

end
